theory Spec2Isabelle
  imports Main "HOL-Library.Sublist"
begin

section \<open>Python values and exceptions\<close>

text \<open>
  The workers receive whatever object the agent library hands back and probe it with
  \<^verbatim>\<open>hasattr\<close>/\<^verbatim>\<open>getattr\<close>. A value is a string, \<^verbatim>\<open>None\<close>, or an object
  with the three attributes the workers look at (each present or absent) and the text that
  \<^verbatim>\<open>str()\<close> gives for it.
\<close>

datatype pyval = PStr string | PNone | PObj pyobj
and pyobj = Obj (attr_text: "pyval option") (attr_content: "pyval option")
                (attr_message: "pyval option") (obj_str: string)

fun py_str :: "pyval \<Rightarrow> string" where
  "py_str (PStr s) = s"
| "py_str PNone = ''None''"
| "py_str (PObj ob) = obj_str ob"

text \<open>
  Exceptions carry what the handlers look at: the class, and for \<^verbatim>\<open>Exception(msg)\<close> and
  for whatever the A2A client raises, the text of \<^verbatim>\<open>str(e)\<close>.
\<close>

datatype exn =
    Exception string
  | ClientError string
  | KeyError string
  | IndexError
  | StopIteration

section \<open>Task storage\<close>

text \<open>
  An artifact as the workers build it:
  \<^verbatim>\<open>{"index": 0, "parts": [{"type": "text", "text": answer}], "lastChunk": True}\<close>.
\<close>

record artifact_part =
  part_type :: string
  part_text :: pyval

record artifact =
  index :: nat
  parts :: "artifact_part list"
  lastChunk :: bool

record task =
  state :: string
  artifacts :: "artifact list"
  error :: "string option"

type_synonym storage = "string \<rightharpoonup> task"

text \<open>
  Modelled from the spec: the storage object (\<^verbatim>\<open>fasta2a.storage.InMemoryStorage\<close>) is a
  library the repository imports; its \<^verbatim>\<open>update_task(task_id, state=..., artifacts=...)\<close>
  is the TaskStore contract \<^verbatim>\<open>update(id, stateTransitionFields) -> ok | NotFound\<close>: it
  writes the state, attaches the artifacts that are passed, touches nothing else, and fails
  on an unknown id. The workers never pass an error string: the call has no such argument.
\<close>

definition update_task :: "storage \<Rightarrow> string \<Rightarrow> string \<Rightarrow> artifact list option \<Rightarrow> exn + storage" where
  "update_task st task_id new_state new_artifacts =
     (case st task_id of
        None \<Rightarrow> Inl (KeyError task_id)
      | Some t \<Rightarrow>
          Inr (st(task_id \<mapsto> t\<lparr>state := new_state,
                 artifacts := (case new_artifacts of
                                 None \<Rightarrow> artifacts t
                               | Some arts \<Rightarrow> artifacts t @ arts)\<rparr>)))"

section \<open>The workers\<close>

text \<open>
  \<^verbatim>\<open>params["message"]["parts"]\<close> is a list of message parts, discriminated by their
  \<^verbatim>\<open>"type"\<close>; only a text part has a \<^verbatim>\<open>"text"\<close>.
\<close>

datatype message_part = TextPart string | FilePart | DataPart

record task_params =
  task_id :: string
  message_parts :: "message_part list"

text \<open>\<^verbatim>\<open>next(p["text"] for p in parts if p["type"] == "text")\<close>: the first text part's
  text, \<^verbatim>\<open>StopIteration\<close> when there is none.\<close>

fun next_text :: "message_part list \<Rightarrow> exn + string" where
  "next_text [] = Inl StopIteration"
| "next_text (TextPart s # ps) = Inr s"
| "next_text (p # ps) = next_text ps"

text \<open>The capability (\<^verbatim>\<open>self.agent.arun\<close>, \<^verbatim>\<open>self.llm.complete\<close>) is opaque: on a prompt
  it returns an object or raises.\<close>

datatype cap_outcome = CapReturns pyval | CapRaises string

type_synonym capability = "string \<Rightarrow> cap_outcome"

text \<open>
  Agno: \<^verbatim>\<open>if hasattr(response, 'text'): answer = response.text
  elif hasattr(response, 'content'): answer = response.content
  elif hasattr(response, 'message'): answer = str(response.message)
  else: answer = str(response)\<close>.
\<close>

fun agno_extract :: "pyval \<Rightarrow> pyval" where
  "agno_extract (PObj ob) =
     (case attr_text ob of
        Some v \<Rightarrow> v
      | None \<Rightarrow>
         (case attr_content ob of
            Some v \<Rightarrow> v
          | None \<Rightarrow>
             (case attr_message ob of
                Some m \<Rightarrow> PStr (py_str m)
              | None \<Rightarrow> PStr (py_str (PObj ob)))))"
| "agno_extract v = PStr (py_str v)"

text \<open>LlamaIndex: \<^verbatim>\<open>answer = getattr(completion, "text", completion)\<close>.\<close>

fun llamaindex_extract :: "pyval \<Rightarrow> pyval" where
  "llamaindex_extract (PObj ob) =
     (case attr_text ob of Some v \<Rightarrow> v | None \<Rightarrow> PObj ob)"
| "llamaindex_extract v = v"

definition answer_artifact :: "pyval \<Rightarrow> artifact" where
  "answer_artifact answer =
     \<lparr>index = 0, parts = [\<lparr>part_type = ''text'', part_text = answer\<rparr>], lastChunk = True\<rparr>"

text \<open>
  The body both \<^verbatim>\<open>run_task\<close> methods share, statement by statement; they differ in the
  extraction only. The result is the exception raised in the body that ends the method (if
  any) and the storage as the method leaves it. (The methods are coroutines: a
  \<^verbatim>\<open>StopIteration\<close> raised in the body reaches the awaiting caller wrapped in a
  \<^verbatim>\<open>RuntimeError\<close>.)
\<close>

definition run_task_body :: "(pyval \<Rightarrow> pyval) \<Rightarrow> capability \<Rightarrow> task_params \<Rightarrow> storage \<Rightarrow> exn option \<times> storage" where
  "run_task_body extract cap params st =
     (case next_text (message_parts params) of
        Inl e \<Rightarrow> (Some e, st)
      | Inr prompt \<Rightarrow>
         (case update_task st (task_id params) ''working'' None of
            Inl e \<Rightarrow> (Some e, st)
          | Inr st1 \<Rightarrow>
             (case cap prompt of
                CapRaises msg \<Rightarrow>
                  (case update_task st1 (task_id params) ''failed'' None of
                     Inl e \<Rightarrow> (Some e, st1)
                   | Inr st2 \<Rightarrow> (None, st2))
              | CapReturns response \<Rightarrow>
                  (case update_task st1 (task_id params) ''completed''
                          (Some [answer_artifact (extract response)]) of
                     Inl e \<Rightarrow> (Some e, st1)
                   | Inr st2 \<Rightarrow> (None, st2)))))"

definition AgnoWorker_run_task :: "capability \<Rightarrow> task_params \<Rightarrow> storage \<Rightarrow> exn option \<times> storage" where
  "AgnoWorker_run_task = run_task_body agno_extract"

definition LlamaIndexWorker_run_task :: "capability \<Rightarrow> task_params \<Rightarrow> storage \<Rightarrow> exn option \<times> storage" where
  "LlamaIndexWorker_run_task = run_task_body llamaindex_extract"

text \<open>\<^verbatim>\<open>cancel_task\<close>, the same in both workers:
  \<^verbatim>\<open>await self.storage.update_task(params["id"], state="canceled")\<close>.\<close>

definition AgnoWorker_cancel_task :: "task_params \<Rightarrow> storage \<Rightarrow> exn option \<times> storage" where
  "AgnoWorker_cancel_task params st =
     (case update_task st (task_id params) ''canceled'' None of
        Inl e \<Rightarrow> (Some e, st)
      | Inr st1 \<Rightarrow> (None, st1))"

definition LlamaIndexWorker_cancel_task :: "task_params \<Rightarrow> storage \<Rightarrow> exn option \<times> storage" where
  "LlamaIndexWorker_cancel_task params st =
     (case update_task st (task_id params) ''canceled'' None of
        Inl e \<Rightarrow> (Some e, st)
      | Inr st1 \<Rightarrow> (None, st1))"

definition terminal :: "string \<Rightarrow> bool" where
  "terminal s = (s = ''completed'' \<or> s = ''failed'' \<or> s = ''canceled'')"

section \<open>The orchestrator's view of a remote service\<close>

text \<open>
  What \<^verbatim>\<open>client.get_task(task_id)\<close> answers, as far as the orchestrators read it:
  \<^verbatim>\<open>reply["result"]["status"]["state"]\<close>, \<^verbatim>\<open>reply["result"]["artifacts"]\<close> (the key may
  be missing) and \<^verbatim>\<open>reply["result"].get("error", ...)\<close>.
\<close>

record reply_artifact =
  artifact_parts :: "message_part list"

record task_reply =
  status_state :: string
  result_artifacts :: "reply_artifact list option"
  result_error :: "string option"

datatype fetch_outcome = GetTaskRaises exn | GetTaskReplies task_reply

text \<open>A polled task: the outcome of the first, second, ... call of \<^verbatim>\<open>get_task\<close> for it.\<close>

type_synonym polled_task = "nat \<Rightarrow> fetch_outcome"

text \<open>
  A remote service: \<^verbatim>\<open>send_task\<close> (its \<open>n\<close>-th call, counted from 0, with the prompt it
  carries) raises or answers with \<^verbatim>\<open>send["result"]["id"]\<close>; \<^verbatim>\<open>get_task\<close> is polled per
  task id.
\<close>

record a2a_client =
  send_task :: "nat \<Rightarrow> string \<Rightarrow> exn + string"
  get_task :: "string \<Rightarrow> polled_task"

record services =
  agno_client :: a2a_client
  llama_client :: a2a_client

text \<open>\<^verbatim>\<open>str(e)\<close>; the text of a \<^verbatim>\<open>KeyError\<close> is the key's \<^verbatim>\<open>repr\<close>.\<close>

fun str_exn :: "exn \<Rightarrow> string" where
  "str_exn (Exception msg) = msg"
| "str_exn (ClientError msg) = msg"
| "str_exn (KeyError k) = CHR 0x27 # k @ [CHR 0x27]"
| "str_exn IndexError = ''list index out of range''"
| "str_exn StopIteration = []"

text \<open>Python's \<^verbatim>\<open>needle in haystack\<close> on strings.\<close>

fun str_in :: "string \<Rightarrow> string \<Rightarrow> bool" where
  "str_in needle [] = (needle = [])"
| "str_in needle (c # cs) = (prefix needle (c # cs) \<or> str_in needle cs)"

text \<open>\<^verbatim>\<open>"500" in str(e) or "Internal Server Error" in str(e)\<close>.\<close>

definition is_server_error :: "exn \<Rightarrow> bool" where
  "is_server_error e = (str_in ''500'' (str_exn e) \<or> str_in ''Internal Server Error'' (str_exn e))"

text \<open>\<^verbatim>\<open>reply["result"]["artifacts"][0]["parts"][0]["text"]\<close>, with the errors of each
  subscript.\<close>

definition first_artifact_text :: "task_reply \<Rightarrow> exn + string" where
  "first_artifact_text reply =
     (case result_artifacts reply of
        None \<Rightarrow> Inl (KeyError ''artifacts'')
      | Some [] \<Rightarrow> Inl IndexError
      | Some (a # _) \<Rightarrow>
         (case artifact_parts a of
            [] \<Rightarrow> Inl IndexError
          | TextPart t # _ \<Rightarrow> Inr t
          | _ # _ \<Rightarrow> Inl (KeyError ''text'')))"

text \<open>The decimal text of a number, as an f-string prints it.\<close>

definition digit_char :: "nat \<Rightarrow> char" where
  "digit_char d = ''0123456789'' ! d"

fun str_nat :: "nat \<Rightarrow> string" where
  "str_nat n = (if n < 10 then [digit_char n] else str_nat (n div 10) @ [digit_char (n mod 10)])"

declare str_nat.simps [simp del]

subsection \<open>\<^verbatim>\<open>orchestrate.py\<close>: waiting with a bound\<close>

definition max_attempts :: nat where
  "max_attempts = 60"

text \<open>What one pass through the \<^verbatim>\<open>try\<close> block does: return the text, raise, or fall
  through to \<^verbatim>\<open>attempts += 1; await anyio.sleep(2)\<close>.\<close>

datatype try_result = Return string | Raise exn | FallThrough

definition try_block :: "fetch_outcome \<Rightarrow> string \<Rightarrow> try_result" where
  "try_block fetched service_name =
     (case fetched of
        GetTaskRaises e \<Rightarrow> Raise e
      | GetTaskReplies reply \<Rightarrow>
         (if status_state reply = ''completed'' then
            (case first_artifact_text reply of Inl e \<Rightarrow> Raise e | Inr t \<Rightarrow> Return t)
          else if status_state reply = ''failed'' then
            Raise (Exception (service_name @ '' task failed: '' @
              (case result_error reply of
                 None \<Rightarrow> ''No error details available''
               | Some error_info \<Rightarrow> error_info)))
          else if status_state reply = ''canceled'' then
            Raise (Exception (service_name @ '' task was canceled''))
          else FallThrough))"

text \<open>
  The \<^verbatim>\<open>while attempts < max_attempts\<close> loop. Every pass calls \<^verbatim>\<open>get_task\<close> once and
  either leaves the loop or adds one to \<^verbatim>\<open>attempts\<close>, so \<^verbatim>\<open>attempts\<close> is also the number
  of the call. The handler \<^verbatim>\<open>except Exception as e\<close> sees every exception of the
  \<^verbatim>\<open>try\<close> block, those the block raises itself included. The second component is the
  list of the \<^verbatim>\<open>anyio.sleep\<close> durations, in order.
\<close>

function wait_loop :: "polled_task \<Rightarrow> string \<Rightarrow> nat \<Rightarrow> nat list \<Rightarrow> (exn + string) \<times> nat list" where
  "wait_loop client service_name attempts slept =
     (if attempts < max_attempts then
        (case try_block (client attempts) service_name of
           Return t \<Rightarrow> (Inr t, slept)
         | Raise e \<Rightarrow>
            (if is_server_error e
             then wait_loop client service_name (attempts + 1) (slept @ [5])
             else (Inl e, slept))
         | FallThrough \<Rightarrow> wait_loop client service_name (attempts + 1) (slept @ [2]))
      else
        (Inl (Exception (service_name @ '' task timed out after '' @ str_nat (max_attempts * 2)
                @ '' seconds'')), slept))"
  by pat_completeness auto
termination
  by (relation "measure (\<lambda>(client, service_name, attempts, slept). max_attempts - attempts)") auto

declare wait_loop.simps [simp del]

definition wait_for_task_completion :: "polled_task \<Rightarrow> string \<Rightarrow> (exn + string) \<times> nat list" where
  "wait_for_task_completion client service_name = wait_loop client service_name 0 []"

subsection \<open>\<^verbatim>\<open>orchestrate_parallel.py\<close>: waiting without a bound\<close>

text \<open>
  \<^verbatim>\<open>while True\<close>, no \<^verbatim>\<open>try\<close>: the loop may never return, which is the value \<open>None\<close>.
  The third argument is the number of the \<^verbatim>\<open>get_task\<close> call.
\<close>

partial_function (option) parallel_wait_loop :: "polled_task \<Rightarrow> string \<Rightarrow> nat \<Rightarrow> (exn + string) option" where
  "parallel_wait_loop client service_name calls =
     (case client calls of
        GetTaskRaises e \<Rightarrow> Some (Inl e)
      | GetTaskReplies reply \<Rightarrow>
         (if status_state reply = ''completed'' then Some (first_artifact_text reply)
          else if status_state reply = ''failed'' then
            Some (Inl (Exception (service_name @ '' task failed'')))
          else if status_state reply = ''canceled'' then
            Some (Inl (Exception (service_name @ '' task was canceled'')))
          else parallel_wait_loop client service_name (calls + 1)))"

definition parallel_wait_for_task_completion :: "polled_task \<Rightarrow> string \<Rightarrow> (exn + string) option" where
  "parallel_wait_for_task_completion client service_name = parallel_wait_loop client service_name 0"

section \<open>The workflows\<close>

text \<open>
  What a run submitted, in order: the service name and the prompt of every
  \<^verbatim>\<open>send_task_to_service\<close> call. The service answers a call by its number among the calls
  made to it in this run.
\<close>

type_synonym submission_log = "(string \<times> string) list"

definition sends_so_far :: "string \<Rightarrow> submission_log \<Rightarrow> nat" where
  "sends_so_far service_name log = length (filter (\<lambda>(s, p). s = service_name) log)"

definition send_task_to_service :: "a2a_client \<Rightarrow> string \<Rightarrow> string \<Rightarrow> submission_log \<Rightarrow> (exn + string) \<times> submission_log" where
  "send_task_to_service client prompt service_name log =
     (send_task client (sends_so_far service_name log) prompt, log @ [(service_name, prompt)])"

subsection \<open>\<^verbatim>\<open>orchestrate.py\<close>: the four-step chain\<close>









subsection \<open>\<^verbatim>\<open>orchestrate_parallel.py\<close>: fan-out and synthesis\<close>

definition parallel_agno_prompt :: "string \<Rightarrow> string" where
  \<open>parallel_agno_prompt initial_prompt =
     ''\<newline>        Please provide a comprehensive and engaging explanation of:\<newline>        ''
     @ initial_prompt @
     ''\<newline>        \<newline>        Focus on clarity, creativity, and making the concept accessible.\<newline>        ''\<close>

definition parallel_llama_prompt :: "string \<Rightarrow> string" where
  \<open>parallel_llama_prompt initial_prompt =
     ''\<newline>        Please provide a detailed, factual analysis of:\<newline>        ''
     @ initial_prompt @
     ''\<newline>        \<newline>        Focus on accuracy, technical depth, and comprehensive coverage.\<newline>        ''\<close>

text \<open>An f-string prints a result that was never assigned as \<^verbatim>\<open>None\<close>.\<close>

fun format_result :: "string option \<Rightarrow> string" where
  "format_result None = ''None''"
| "format_result (Some r) = r"

text \<open>The synthesis f-string, cut at its two result slots.\<close>

definition synthesis_prefix :: "string \<Rightarrow> string" where
  \<open>synthesis_prefix initial_prompt =
     ''\<newline>    I have two different responses to the question: "'' @ initial_prompt @
     ''"\<newline>\<newline>    Response 1 (Creative/Accessible):\<newline>    ''\<close>

definition synthesis_middle :: string where
  \<open>synthesis_middle = ''\<newline>\<newline>    Response 2 (Technical/Factual):\<newline>    ''\<close>

definition synthesis_suffix :: string where
  \<open>synthesis_suffix =
     ''\<newline>\<newline>    Please synthesize these two responses into a single, comprehensive answer that:\<newline>    1. Combines the best aspects of both responses\<newline>    2. Resolves any contradictions by favoring factual accuracy\<newline>    3. Maintains accessibility while preserving technical precision\<newline>    4. Provides a well-rounded, complete answer\<newline>\<newline>    Create the definitive response that leverages both perspectives.\<newline>    ''\<close>

definition synthesis_prompt :: "string \<Rightarrow> string option \<Rightarrow> string option \<Rightarrow> string" where
  "synthesis_prompt initial_prompt agno_result llama_result =
     synthesis_prefix initial_prompt @ format_result agno_result @
     synthesis_middle @ format_result llama_result @ synthesis_suffix"

text \<open>\<^verbatim>\<open>process_with_agno\<close> and \<^verbatim>\<open>process_with_llama\<close>: send, then wait without a
  bound. The last argument is the number of the \<^verbatim>\<open>send_task\<close> call to that service.\<close>

definition process_with_agno :: "services \<Rightarrow> string \<Rightarrow> nat \<Rightarrow> (exn + string) option" where
  "process_with_agno svc initial_prompt n =
     (case send_task (agno_client svc) n (parallel_agno_prompt initial_prompt) of
        Inl e \<Rightarrow> Some (Inl e)
      | Inr tid \<Rightarrow>
          parallel_wait_for_task_completion (get_task (agno_client svc) tid) ''Agno'')"

definition process_with_llama :: "services \<Rightarrow> string \<Rightarrow> nat \<Rightarrow> (exn + string) option" where
  "process_with_llama svc initial_prompt n =
     (case send_task (llama_client svc) n (parallel_llama_prompt initial_prompt) of
        Inl e \<Rightarrow> Some (Inl e)
      | Inr tid \<Rightarrow>
          parallel_wait_for_task_completion (get_task (llama_client svc) tid) ''LlamaIndex'')"

text \<open>
  An \<^verbatim>\<open>anyio\<close> task group with the two children, started Agno first. It is left when
  both children have returned, or as soon as one raises (the other is then cancelled at its
  next \<^verbatim>\<open>await\<close>), and it re-raises that exception. A child that returns appends its
  tagged result to \<^verbatim>\<open>results\<close>, so the list is in the order of completion; which child
  is first is the scheduler's choice, the flag \<open>llama_first\<close>.
\<close>

definition task_group :: "(exn + string) option \<Rightarrow> (exn + string) option \<Rightarrow> bool \<Rightarrow> (exn + (string \<times> string) list) option" where
  "task_group agno llama llama_first =
     (case (agno, llama) of
        (Some (Inr a), Some (Inr l)) \<Rightarrow>
          Some (Inr (if llama_first then [(''llama'', l), (''agno'', a)]
                     else [(''agno'', a), (''llama'', l)]))
      | (Some (Inl e), Some (Inl e')) \<Rightarrow> Some (Inl (if llama_first then e' else e))
      | (Some (Inl e), _) \<Rightarrow> Some (Inl e)
      | (_, Some (Inl e')) \<Rightarrow> Some (Inl e')
      | _ \<Rightarrow> None)"

definition fan_out :: "services \<Rightarrow> string \<Rightarrow> bool \<Rightarrow> submission_log \<Rightarrow> (exn + (string \<times> string) list) option \<times> submission_log" where
  "fan_out svc initial_prompt llama_first log =
     (task_group (process_with_agno svc initial_prompt (sends_so_far ''Agno'' log))
                 (process_with_llama svc initial_prompt (sends_so_far ''LlamaIndex'' log))
                 llama_first,
      log @ [(''Agno'', parallel_agno_prompt initial_prompt),
             (''LlamaIndex'', parallel_llama_prompt initial_prompt)])"

text \<open>\<^verbatim>\<open>for service, result in results: if service == 'agno': agno_result = result
  elif service == 'llama': llama_result = result\<close>.\<close>

fun extract_results :: "(string \<times> string) list \<Rightarrow> string option \<times> string option \<Rightarrow> string option \<times> string option" where
  "extract_results [] (agno_result, llama_result) = (agno_result, llama_result)"
| "extract_results ((service, result) # rest) (agno_result, llama_result) =
     (if service = ''agno'' then extract_results rest (Some result, llama_result)
      else if service = ''llama'' then extract_results rest (agno_result, Some result)
      else extract_results rest (agno_result, llama_result))"

text \<open>
  The workflow: the first task group (its results are dropped), the second task group
  (\<^verbatim>\<open>collect_agno\<close>, \<^verbatim>\<open>collect_llama\<close>), the extraction loop, the synthesis step. The two
  flags are the completion orders of the two groups.
\<close>

definition parallel_processing_workflow :: "services \<Rightarrow> string \<Rightarrow> bool \<Rightarrow> bool \<Rightarrow> (exn + string \<times> string option \<times> string option) option \<times> submission_log" where
  "parallel_processing_workflow svc initial_prompt first_order second_order =
     (case fan_out svc initial_prompt first_order [] of
        (None, log1) \<Rightarrow> (None, log1)
      | (Some (Inl e), log1) \<Rightarrow> (Some (Inl e), log1)
      | (Some (Inr dropped), log1) \<Rightarrow>
     (case fan_out svc initial_prompt second_order log1 of
        (None, log2) \<Rightarrow> (None, log2)
      | (Some (Inl e), log2) \<Rightarrow> (Some (Inl e), log2)
      | (Some (Inr results), log2) \<Rightarrow>
     (case extract_results results (None, None) of
        (agno_result, llama_result) \<Rightarrow>
     (case send_task_to_service (agno_client svc)
             (synthesis_prompt initial_prompt agno_result llama_result) ''Agno'' log2 of
        (Inl e, log3) \<Rightarrow> (Some (Inl e), log3)
      | (Inr tid, log3) \<Rightarrow>
         (case parallel_wait_for_task_completion (get_task (agno_client svc) tid) ''Agno'' of
            None \<Rightarrow> (None, log3)
          | Some (Inl e) \<Rightarrow> (Some (Inl e), log3)
          | Some (Inr final_result) \<Rightarrow>
              (Some (Inr (final_result, agno_result, llama_result)), log3))))))"

section \<open>Notions the statements use\<close>

text \<open>The extraction order as the specification words it: a \<^verbatim>\<open>text\<close> field, then a
  \<^verbatim>\<open>content\<close> field, then the string conversion of the result object.\<close>

fun spec_extract :: "pyval \<Rightarrow> pyval" where
  "spec_extract (PObj ob) =
     (case attr_text ob of
        Some v \<Rightarrow> v
      | None \<Rightarrow>
         (case attr_content ob of
            Some v \<Rightarrow> v
          | None \<Rightarrow> PStr (py_str (PObj ob))))"
| "spec_extract v = PStr (py_str v)"

text \<open>A fetch that raises what the handler of \<^verbatim>\<open>orchestrate.py\<close> takes for a server
  error, and a fetch that shows the task in a state that is not terminal.\<close>

definition server_error_fetch :: "fetch_outcome \<Rightarrow> bool" where
  "server_error_fetch fetched =
     (case fetched of GetTaskRaises e \<Rightarrow> is_server_error e | GetTaskReplies reply \<Rightarrow> False)"

definition pending :: "fetch_outcome \<Rightarrow> bool" where
  "pending fetched =
     (case fetched of
        GetTaskRaises e \<Rightarrow> False
      | GetTaskReplies reply \<Rightarrow> \<not> terminal (status_state reply))"

text \<open>The sleep that follows pass \<open>k\<close> of the bounded loop, when the loop goes on after
  it.\<close>

definition sleep_after :: "polled_task \<Rightarrow> string \<Rightarrow> nat \<Rightarrow> nat option" where
  "sleep_after client service_name k =
     (case try_block (client k) service_name of
        Return t \<Rightarrow> None
      | Raise e \<Rightarrow> (if is_server_error e then Some 5 else None)
      | FallThrough \<Rightarrow> Some 2)"

definition timeout_error :: "string \<Rightarrow> exn" where
  "timeout_error service_name =
     Exception (service_name @ '' task timed out after 120 seconds'')"


definition fan_out_log :: "string \<Rightarrow> submission_log" where
  "fan_out_log initial_prompt =
     [(''Agno'', parallel_agno_prompt initial_prompt),
      (''LlamaIndex'', parallel_llama_prompt initial_prompt)]"

section \<open>Concrete inputs\<close>

definition submitted_task :: task where
  "submitted_task = \<lparr>state = ''submitted'', artifacts = [], error = None\<rparr>"

definition example_storage :: storage where
  "example_storage = Map.empty(''t1'' \<mapsto> submitted_task)"

definition completed_storage :: storage where
  "completed_storage =
     Map.empty(''t1'' \<mapsto> \<lparr>state = ''completed'', artifacts = [answer_artifact (PStr ''4'')],
                          error = None\<rparr>)"

definition example_params :: task_params where
  "example_params = \<lparr>task_id = ''t1'', message_parts = [TextPart ''2+2'']\<rparr>"

definition file_only_params :: task_params where
  "file_only_params = \<lparr>task_id = ''t1'', message_parts = [FilePart, DataPart]\<rparr>"

definition raising_capability :: capability where
  "raising_capability prompt = CapRaises ''boom''"

definition four_response :: pyval where
  "four_response = PObj (Obj (Some (PStr ''4'')) None None ''RunResponse'')"

definition four_capability :: capability where
  "four_capability prompt = CapReturns four_response"

definition message_only_response :: pyval where
  "message_only_response = PObj (Obj None None (Some (PStr ''see message'')) ''RunResponse'')"

definition content_only_response :: pyval where
  "content_only_response = PObj (Obj None (Some (PStr ''body'')) None ''CompletionResponse'')"

definition working_reply :: fetch_outcome where
  "working_reply =
     GetTaskReplies \<lparr>status_state = ''working'', result_artifacts = None, result_error = None\<rparr>"

definition completed_reply :: "string \<Rightarrow> fetch_outcome" where
  "completed_reply text =
     GetTaskReplies \<lparr>status_state = ''completed'',
                     result_artifacts = Some [\<lparr>artifact_parts = [TextPart text]\<rparr>],
                     result_error = None\<rparr>"

definition failed_reply :: "string option \<Rightarrow> fetch_outcome" where
  "failed_reply error_info =
     GetTaskReplies \<lparr>status_state = ''failed'', result_artifacts = None,
                     result_error = error_info\<rparr>"

definition server_error :: fetch_outcome where
  "server_error = GetTaskRaises (ClientError ''500 Internal Server Error'')"

definition always_working :: polled_task where
  "always_working k = working_reply"

definition always_server_error :: polled_task where
  "always_server_error k = server_error"

definition two_errors_then_completed :: polled_task where
  "two_errors_then_completed k = (if k < 2 then server_error else completed_reply ''done'')"

definition one_error_then_working :: polled_task where
  "one_error_then_working k = (if k < 1 then server_error else working_reply)"

definition always_failed :: polled_task where
  "always_failed k = failed_reply None"

definition failed_mentioning_500 :: polled_task where
  "failed_mentioning_500 k = failed_reply (Some ''upstream returned HTTP 500'')"

text \<open>A service that answers its \<open>n\<close>-th \<^verbatim>\<open>send_task\<close> with a task id, and every
  \<^verbatim>\<open>get_task\<close> for that task with the \<open>n\<close>-th reply of a list.\<close>

definition example_client :: "fetch_outcome list \<Rightarrow> a2a_client" where
  "example_client replies =
     \<lparr>send_task = (\<lambda>n prompt. Inr (replicate n (CHR ''i''))),
      get_task = (\<lambda>tid k. if length tid < length replies then replies ! length tid
                           else failed_reply None)\<rparr>"

definition example_services :: "fetch_outcome list \<Rightarrow> fetch_outcome list \<Rightarrow> services" where
  "example_services agno_replies llama_replies =
     \<lparr>agno_client = example_client agno_replies, llama_client = example_client llama_replies\<rparr>"

section \<open>The workers: what a run leaves in the storage\<close>

lemma update_task_state:
  "st tid = Some t \<Longrightarrow> update_task st tid s None = Inr (st(tid \<mapsto> t\<lparr>state := s\<rparr>))"
  by (simp add: update_task_def)

lemma update_task_artifacts:
  "st tid = Some t \<Longrightarrow>
   update_task st tid s (Some arts)
     = Inr (st(tid \<mapsto> t\<lparr>state := s, artifacts := artifacts t @ arts\<rparr>))"
  by (simp add: update_task_def)

lemma run_task_body_raises:
  assumes "next_text (message_parts params) = Inr prompt"
    and "cap prompt = CapRaises msg"
    and "st (task_id params) = Some t"
  shows "run_task_body extract cap params st
       = (None, st(task_id params \<mapsto> t\<lparr>state := ''failed''\<rparr>))"
  using assms by (simp add: run_task_body_def update_task_state)

lemma run_task_body_returns:
  assumes "next_text (message_parts params) = Inr prompt"
    and "cap prompt = CapReturns response"
    and "st (task_id params) = Some t"
  shows "run_task_body extract cap params st =
    (None, st(task_id params \<mapsto>
       t\<lparr>state := ''completed'',
         artifacts := artifacts t @ [answer_artifact (extract response)]\<rparr>))"
  using assms by (simp add: run_task_body_def update_task_state update_task_artifacts)

lemma run_task_body_no_text:
  assumes "next_text (message_parts params) = Inl e"
  shows "run_task_body extract cap params st = (Some e, st)"
  using assms by (simp add: run_task_body_def)

lemma next_text_no_text_part:
  "(\<forall>s. TextPart s \<notin> set ps) \<Longrightarrow> next_text ps = Inl StopIteration"
  by (induction ps rule: next_text.induct) auto

lemma example_next_text: "next_text (message_parts example_params) = Inr ''2+2''"
  by (simp add: example_params_def)

lemma example_lookup: "example_storage (task_id example_params) = Some submitted_task"
  by (simp add: example_params_def example_storage_def)

text \<open>
  C1 (as the code has it). When the capability raises, \<^verbatim>\<open>run_task\<close> of either worker
  returns normally and leaves the task with state \<^verbatim>\<open>failed\<close>; nothing else of the
  record changes, so no artifact is attached and no error string either (the traceback is
  printed, not stored).
\<close>

theorem C1_capability_raises_state_failed_only:
  assumes "next_text (message_parts params) = Inr prompt"
    and "cap prompt = CapRaises msg"
    and "st (task_id params) = Some t"
  shows "AgnoWorker_run_task cap params st
           = (None, st(task_id params \<mapsto> t\<lparr>state := ''failed''\<rparr>))
       \<and> LlamaIndexWorker_run_task cap params st
           = (None, st(task_id params \<mapsto> t\<lparr>state := ''failed''\<rparr>))"
  using assms
  by (simp add: AgnoWorker_run_task_def LlamaIndexWorker_run_task_def run_task_body_raises)

theorem C1_capability_raises_witness:
  "AgnoWorker_run_task raising_capability example_params example_storage
     = (None, example_storage(''t1'' \<mapsto> \<lparr>state = ''failed'', artifacts = [], error = None\<rparr>))
   \<and> LlamaIndexWorker_run_task raising_capability example_params example_storage
     = (None, example_storage(''t1'' \<mapsto> \<lparr>state = ''failed'', artifacts = [], error = None\<rparr>))"
  using C1_capability_raises_state_failed_only
    [of example_params "''2+2''" raising_capability "''boom''" example_storage submitted_task]
  by (simp add: example_params_def example_storage_def raising_capability_def submitted_task_def)

text \<open>
  C1 as stated fails: after the capability raised on a freshly submitted task, the stored
  record has state \<^verbatim>\<open>failed\<close> and no artifacts, but its error is absent, not a non-empty
  string.
\<close>

theorem C1_no_error_string_counterexample:
  "snd (AgnoWorker_run_task raising_capability example_params example_storage) ''t1''
     = Some \<lparr>state = ''failed'', artifacts = [], error = None\<rparr>"
proof -
  have raises: "raising_capability ''2+2'' = CapRaises ''boom''"
    by (simp add: raising_capability_def)
  from example_next_text raises example_lookup
  have "run_task_body agno_extract raising_capability example_params example_storage
      = (None, example_storage(task_id example_params \<mapsto> submitted_task\<lparr>state := ''failed''\<rparr>))"
    by (rule run_task_body_raises)
  then show ?thesis
    by (simp add: AgnoWorker_run_task_def example_params_def submitted_task_def)
qed

text \<open>
  C5 (as the code has it). When the capability returns, \<^verbatim>\<open>run_task\<close> leaves a task that
  had no artifacts with state \<^verbatim>\<open>completed\<close> and exactly one artifact, whose single text
  part holds the extracted answer. The Agno worker probes \<^verbatim>\<open>text\<close>, then \<^verbatim>\<open>content\<close>,
  then \<^verbatim>\<open>message\<close> (converted to a string), and only then converts the object; the
  LlamaIndex worker takes \<^verbatim>\<open>text\<close> when there is one and the object itself otherwise.
\<close>

theorem C5_capability_returns_completed_one_artifact:
  assumes "next_text (message_parts params) = Inr prompt"
    and "cap prompt = CapReturns response"
    and "st (task_id params) = Some t"
    and "artifacts t = []"
  shows "AgnoWorker_run_task cap params st
           = (None, st(task_id params \<mapsto>
                t\<lparr>state := ''completed'', artifacts := [answer_artifact (agno_extract response)]\<rparr>))
       \<and> LlamaIndexWorker_run_task cap params st
           = (None, st(task_id params \<mapsto>
                t\<lparr>state := ''completed'',
                  artifacts := [answer_artifact (llamaindex_extract response)]\<rparr>))
       \<and> parts (answer_artifact answer) = [\<lparr>part_type = ''text'', part_text = answer\<rparr>]
       \<and> agno_extract (PObj (Obj (Some v) c m s)) = v
       \<and> agno_extract (PObj (Obj None (Some v) m s)) = v
       \<and> agno_extract (PObj (Obj None None (Some v) s)) = PStr (py_str v)
       \<and> agno_extract (PObj (Obj None None None s)) = PStr s
       \<and> llamaindex_extract (PObj (Obj (Some v) c m s)) = v
       \<and> llamaindex_extract (PObj (Obj None c m s)) = PObj (Obj None c m s)"
  using assms
  by (simp add: AgnoWorker_run_task_def LlamaIndexWorker_run_task_def run_task_body_returns
      answer_artifact_def)

theorem C5_scenario_A_witness:
  "snd (AgnoWorker_run_task four_capability example_params example_storage) ''t1''
     = Some \<lparr>state = ''completed'', artifacts = [answer_artifact (PStr ''4'')], error = None\<rparr>
   \<and> snd (LlamaIndexWorker_run_task four_capability example_params example_storage) ''t1''
     = Some \<lparr>state = ''completed'', artifacts = [answer_artifact (PStr ''4'')], error = None\<rparr>"
  using C5_capability_returns_completed_one_artifact
    [of example_params "''2+2''" four_capability four_response example_storage submitted_task]
  by (simp add: example_params_def example_storage_def four_capability_def four_response_def
      submitted_task_def)

text \<open>
  C5 as stated fails on the extraction order: an Agno response with only a \<^verbatim>\<open>message\<close>
  gives the message's text, not the string conversion of the object, and a LlamaIndex
  completion with a \<^verbatim>\<open>content\<close> but no \<^verbatim>\<open>text\<close> gives the object itself, not its
  content.
\<close>

theorem C5_extraction_order_counterexample:
  "agno_extract message_only_response = PStr ''see message''
   \<and> spec_extract message_only_response = PStr ''RunResponse''
   \<and> llamaindex_extract content_only_response = content_only_response
   \<and> spec_extract content_only_response = PStr ''body''"
  by (simp add: message_only_response_def content_only_response_def)

text \<open>
  C6 (as the code has it). \<^verbatim>\<open>cancel_task\<close> has no guard: whatever state the stored task
  is in, terminal or not, the call rewrites it to \<^verbatim>\<open>canceled\<close> and leaves the rest of
  the record alone. Of the terminal states only \<^verbatim>\<open>canceled\<close> is kept by it.
\<close>

theorem C6_cancel_task_overwrites_any_state:
  assumes "st (task_id params) = Some t"
  shows "AgnoWorker_cancel_task params st
           = (None, st(task_id params \<mapsto> t\<lparr>state := ''canceled''\<rparr>))
       \<and> LlamaIndexWorker_cancel_task params st
           = (None, st(task_id params \<mapsto> t\<lparr>state := ''canceled''\<rparr>))"
  using assms
  by (simp add: AgnoWorker_cancel_task_def LlamaIndexWorker_cancel_task_def update_task_state)

theorem C6_cancel_task_witness:
  "AgnoWorker_cancel_task example_params example_storage
     = (None, example_storage(''t1'' \<mapsto> \<lparr>state = ''canceled'', artifacts = [], error = None\<rparr>))
   \<and> LlamaIndexWorker_cancel_task example_params example_storage
     = (None, example_storage(''t1'' \<mapsto> \<lparr>state = ''canceled'', artifacts = [], error = None\<rparr>))"
  using C6_cancel_task_overwrites_any_state [of example_storage example_params submitted_task]
  by (simp add: example_params_def example_storage_def submitted_task_def)

text \<open>
  C6 as stated fails: a task that is \<^verbatim>\<open>completed\<close>, a terminal state, is moved to
  \<^verbatim>\<open>canceled\<close> by \<^verbatim>\<open>cancel_task\<close>.
\<close>

theorem C6_completed_task_canceled_counterexample:
  "terminal ''completed''
   \<and> map_option state (completed_storage ''t1'') = Some ''completed''
   \<and> map_option state (snd (AgnoWorker_cancel_task example_params completed_storage) ''t1'')
       = Some ''canceled''"
  by (simp add: terminal_def completed_storage_def AgnoWorker_cancel_task_def update_task_def
      example_params_def)

text \<open>
  C9. When no message part is a text part, \<^verbatim>\<open>run_task\<close> of either worker ends with
  the \<^verbatim>\<open>StopIteration\<close> of the \<^verbatim>\<open>next(...)\<close> expression and the storage is exactly what
  it was: no update was made, so the task is not marked working, failed or completed.
\<close>

theorem C9_no_text_part_no_storage_update:
  assumes "\<forall>s. TextPart s \<notin> set (message_parts params)"
  shows "AgnoWorker_run_task cap params st = (Some StopIteration, st)
       \<and> LlamaIndexWorker_run_task cap params st = (Some StopIteration, st)"
  using next_text_no_text_part [OF assms]
  by (simp add: AgnoWorker_run_task_def LlamaIndexWorker_run_task_def run_task_body_no_text)

theorem C9_no_text_part_witness:
  "AgnoWorker_run_task four_capability file_only_params example_storage
     = (Some StopIteration, example_storage)
   \<and> LlamaIndexWorker_run_task four_capability file_only_params example_storage
     = (Some StopIteration, example_storage)
   \<and> map_option state (example_storage ''t1'') = Some ''submitted''"
  using C9_no_text_part_no_storage_update [of file_only_params four_capability example_storage]
  by (simp add: file_only_params_def example_storage_def submitted_task_def)

section \<open>The bounded waiter of \<^verbatim>\<open>orchestrate.py\<close>\<close>

lemma str_nat_budget: "str_nat (max_attempts * 2) = ''120''"
  by (simp add: max_attempts_def str_nat.simps digit_char_def)

lemma wait_loop_exhausted:
  "wait_loop client sn max_attempts slept = (Inl (timeout_error sn), slept)"
  by (subst wait_loop.simps) (simp add: str_nat_budget timeout_error_def)

lemma wait_loop_continue:
  assumes "a < max_attempts" and "sleep_after client sn a = Some d"
  shows "wait_loop client sn a slept = wait_loop client sn (Suc a) (slept @ [d])"
  using assms
  by (subst wait_loop.simps) (auto simp: sleep_after_def split: try_result.splits if_splits)

lemma wait_loop_return:
  assumes "a < max_attempts" and "try_block (client a) sn = Return t"
  shows "wait_loop client sn a slept = (Inr t, slept)"
  using assms by (subst wait_loop.simps) simp

lemma wait_loop_raise:
  assumes "a < max_attempts" and "try_block (client a) sn = Raise e" and "\<not> is_server_error e"
  shows "wait_loop client sn a slept = (Inl e, slept)"
  using assms by (subst wait_loop.simps) simp

text \<open>A run of passes that all go on: the loop arrives at pass \<open>n\<close> having slept once per
  pass.\<close>

lemma wait_loop_run:
  assumes "n \<le> max_attempts" and "a \<le> n"
    and "\<And>k. a \<le> k \<Longrightarrow> k < n \<Longrightarrow> sleep_after client sn k = Some (d k)"
  shows "wait_loop client sn a slept = wait_loop client sn n (slept @ map d [a..<n])"
  using assms(2,3)
proof (induction "n - a" arbitrary: a slept)
  case 0
  then show ?case by simp
next
  case (Suc m)
  then have lt: "a < n" by simp
  with assms(1) have "a < max_attempts" by simp
  moreover from Suc.prems lt have "sleep_after client sn a = Some (d a)" by simp
  ultimately have "wait_loop client sn a slept = wait_loop client sn (Suc a) (slept @ [d a])"
    by (rule wait_loop_continue)
  also have "\<dots> = wait_loop client sn n ((slept @ [d a]) @ map d [Suc a..<n])"
    using Suc.hyps(2) Suc.prems lt by (intro Suc.hyps(1)) auto
  also have "(slept @ [d a]) @ map d [Suc a..<n] = slept @ map d [a..<n]"
    using lt by (simp add: upt_conv_Cons)
  finally show ?case .
qed

lemma sleep_after_server_error:
  "server_error_fetch (client k) \<Longrightarrow> sleep_after client sn k = Some 5"
  by (auto simp: server_error_fetch_def sleep_after_def try_block_def split: fetch_outcome.splits)

lemma sleep_after_pending:
  "pending (client k) \<Longrightarrow> sleep_after client sn k = Some 2"
  by (auto simp: pending_def sleep_after_def try_block_def terminal_def
      split: fetch_outcome.splits)

lemma pending_not_server_error: "pending f \<Longrightarrow> \<not> server_error_fetch f"
  by (auto simp: pending_def server_error_fetch_def split: fetch_outcome.splits)

lemma wait_budget_spent:
  assumes "\<And>k. k < max_attempts \<Longrightarrow> server_error_fetch (client k) \<or> pending (client k)"
  shows "wait_for_task_completion client sn
       = (Inl (timeout_error sn),
          map (\<lambda>k. if server_error_fetch (client k) then 5 else 2) [0..<max_attempts])"
proof -
  have "sleep_after client sn k = Some (if server_error_fetch (client k) then 5 else 2)"
    if "k < max_attempts" for k
    using assms [OF that] sleep_after_server_error sleep_after_pending pending_not_server_error
    by (cases "server_error_fetch (client k)") auto
  then have "wait_loop client sn 0 []
      = wait_loop client sn max_attempts
          ([] @ map (\<lambda>k. if server_error_fetch (client k) then 5 else 2) [0..<max_attempts])"
    by (intro wait_loop_run) auto
  then show ?thesis
    by (simp add: wait_for_task_completion_def wait_loop_exhausted)
qed

lemma wait_after_server_errors:
  assumes "n < max_attempts"
    and "\<And>k. k < n \<Longrightarrow> server_error_fetch (client k)"
  shows "wait_for_task_completion client sn = wait_loop client sn n (replicate n 5)"
proof -
  have "wait_loop client sn 0 [] = wait_loop client sn n ([] @ map (\<lambda>k. 5) [0..<n])"
    using assms by (intro wait_loop_run) (auto simp: sleep_after_server_error)
  then show ?thesis
    by (simp add: wait_for_task_completion_def map_replicate_const)
qed

lemma server_error_is_server_error: "server_error_fetch server_error"
  by (simp add: server_error_fetch_def server_error_def is_server_error_def)

lemma working_reply_pending: "pending working_reply"
  by (simp add: pending_def working_reply_def terminal_def)

text \<open>
  C2 (as the code has it). A fetch that raises an exception whose text contains
  \<^verbatim>\<open>500\<close> or \<^verbatim>\<open>Internal Server Error\<close> does not end the wait: the loop sleeps 5
  seconds (an ordinary poll sleeps 2) and fetches again. Such a failure spends one of the
  same 60 attempts that ordinary polls spend; there is no budget of its own. When the 60
  attempts are spent, in whatever mix of server errors and polls of a task still running,
  the waiter raises the time-out exception, not the server error. After \<open>n < 60\<close> server
  errors a completed task is returned.
\<close>

theorem C2_server_errors_spend_the_attempt_budget:
  "(n < max_attempts \<and> (\<forall>k<n. server_error_fetch (client k))
      \<and> try_block (client n) sn = Return t
      \<longrightarrow> wait_for_task_completion client sn = (Inr t, replicate n 5))
   \<and> ((\<forall>k<max_attempts. server_error_fetch (client k) \<or> pending (client k))
      \<longrightarrow> wait_for_task_completion client sn
            = (Inl (timeout_error sn),
               map (\<lambda>k. if server_error_fetch (client k) then 5 else 2) [0..<max_attempts]))"
proof (intro conjI impI)
  assume a: "n < max_attempts \<and> (\<forall>k<n. server_error_fetch (client k))
      \<and> try_block (client n) sn = Return t"
  then have "wait_for_task_completion client sn = wait_loop client sn n (replicate n 5)"
    by (intro wait_after_server_errors) auto
  with a show "wait_for_task_completion client sn = (Inr t, replicate n 5)"
    by (simp add: wait_loop_return)
next
  assume "\<forall>k<max_attempts. server_error_fetch (client k) \<or> pending (client k)"
  then show "wait_for_task_completion client sn
      = (Inl (timeout_error sn),
         map (\<lambda>k. if server_error_fetch (client k) then 5 else 2) [0..<max_attempts])"
    by (intro wait_budget_spent) auto
qed

theorem C2_scenario_C_witness:
  "wait_for_task_completion two_errors_then_completed ''Agno'' = (Inr ''done'', [5, 5])
   \<and> fst (wait_for_task_completion one_error_then_working ''Agno'')
       = Inl (Exception ''Agno task timed out after 120 seconds'')
   \<and> length (snd (wait_for_task_completion one_error_then_working ''Agno'')) = 60"
proof -
  have two: "(2::nat) < max_attempts \<and> (\<forall>k<2. server_error_fetch (two_errors_then_completed k))
      \<and> try_block (two_errors_then_completed 2) ''Agno'' = Return ''done''"
    by (simp add: max_attempts_def two_errors_then_completed_def server_error_is_server_error
        completed_reply_def try_block_def first_artifact_text_def)
  have one: "\<forall>k<max_attempts. server_error_fetch (one_error_then_working k)
      \<or> pending (one_error_then_working k)"
    by (simp add: one_error_then_working_def server_error_is_server_error working_reply_pending)
  from two one
    C2_server_errors_spend_the_attempt_budget [of 2 two_errors_then_completed "''Agno''" "''done''"]
    C2_server_errors_spend_the_attempt_budget [of 0 one_error_then_working "''Agno''" "''done''"]
  show ?thesis
    by (simp add: timeout_error_def max_attempts_def numeral_2_eq_2)
qed

text \<open>
  C2 as stated fails: when every fetch raises the server error, the 60 attempts are spent
  on it and what the waiter raises is the time-out exception; the server error itself is
  not propagated.
\<close>

theorem C2_budget_exhausted_counterexample:
  "wait_for_task_completion always_server_error ''Agno''
     = (Inl (Exception ''Agno task timed out after 120 seconds''), replicate max_attempts 5)
   \<and> always_server_error 59 = GetTaskRaises (ClientError ''500 Internal Server Error'')"
proof -
  have se: "server_error_fetch (always_server_error k)" for k
    by (simp add: always_server_error_def server_error_is_server_error)
  then have "wait_for_task_completion always_server_error ''Agno''
      = (Inl (timeout_error ''Agno''),
         map (\<lambda>k. if server_error_fetch (always_server_error k) then 5 else 2)
           [0..<max_attempts])"
    by (intro wait_budget_spent) simp
  then have "wait_for_task_completion always_server_error ''Agno''
      = (Inl (Exception ''Agno task timed out after 120 seconds''), replicate max_attempts 5)"
    by (simp add: se timeout_error_def map_replicate_const)
  moreover have "always_server_error 59 = GetTaskRaises (ClientError ''500 Internal Server Error'')"
    by (simp add: always_server_error_def server_error_def)
  ultimately show ?thesis by simp
qed

section \<open>The unbounded waiter of \<^verbatim>\<open>orchestrate_parallel.py\<close>\<close>

lemma parallel_wait_loop_returns_not_pending:
  assumes "parallel_wait_loop client sn n = Some y"
  shows "\<exists>k. \<not> pending (client k)"
  using assms
proof (induction rule: parallel_wait_loop.raw_induct[rotated 1, consumes 1])
  case (1 w client sn n y)
  show ?case
  proof (cases "pending (client n)")
    case False
    then show ?thesis by blast
  next
    case True
    then obtain reply where "client n = GetTaskReplies reply" "\<not> terminal (status_state reply)"
      by (auto simp: pending_def split: fetch_outcome.splits)
    with 1(2) have "w client sn (n + 1) = Some y"
      by (simp add: terminal_def)
    then show ?thesis by (rule 1(1))
  qed
qed

lemma parallel_wait_loop_never_returns:
  assumes "\<And>k. pending (client k)"
  shows "parallel_wait_loop client sn n = None"
proof (cases "parallel_wait_loop client sn n")
  case None
  then show ?thesis .
next
  case (Some y)
  then have "\<exists>k. \<not> pending (client k)" by (rule parallel_wait_loop_returns_not_pending)
  with assms show ?thesis by blast
qed

text \<open>
  C3 is right for \<^verbatim>\<open>orchestrate.py\<close> and broken by \<^verbatim>\<open>orchestrate_parallel.py\<close>. On a
  task that every poll shows \<^verbatim>\<open>working\<close>, the bounded waiter raises its time-out after
  60 polls, each followed by a 2-second sleep; the waiter of the same name in
  \<^verbatim>\<open>orchestrate_parallel.py\<close> has no bound and never returns.
\<close>

theorem C3_parallel_waiter_never_returns:
  "wait_for_task_completion always_working ''Agno''
     = (Inl (Exception ''Agno task timed out after 120 seconds''), replicate max_attempts 2)
   \<and> parallel_wait_for_task_completion always_working ''Agno'' = None"
proof -
  have p: "pending (always_working k)" for k
    by (simp add: always_working_def working_reply_pending)
  then have "wait_for_task_completion always_working ''Agno''
      = (Inl (timeout_error ''Agno''),
         map (\<lambda>k. if server_error_fetch (always_working k) then 5 else 2) [0..<max_attempts])"
    by (intro wait_budget_spent) simp
  moreover have "\<not> server_error_fetch (always_working k)" for k
    using p by (rule pending_not_server_error)
  moreover have "parallel_wait_loop always_working ''Agno'' 0 = None"
    using p by (rule parallel_wait_loop_never_returns)
  ultimately show ?thesis
    by (simp add: timeout_error_def map_replicate_const parallel_wait_for_task_completion_def)
qed

text \<open>
  C4 is broken by the handler of \<^verbatim>\<open>orchestrate.py\<close>. The exception the \<^verbatim>\<open>try\<close> block
  raises for a failed task is caught by the block's own \<^verbatim>\<open>except Exception\<close>, which
  looks for \<^verbatim>\<open>500\<close> in its text. A failed task without error details is reported at
  once; a failed task whose error mentions \<^verbatim>\<open>500\<close> is polled again, 60 times with a
  5-second sleep each, and the waiter ends with the time-out instead of the failure.
\<close>

theorem C4_failed_task_retried_when_error_mentions_500:
  "wait_for_task_completion always_failed ''LlamaIndex''
     = (Inl (Exception ''LlamaIndex task failed: No error details available''), [])
   \<and> wait_for_task_completion failed_mentioning_500 ''LlamaIndex''
     = (Inl (Exception ''LlamaIndex task timed out after 120 seconds''),
        replicate max_attempts 5)"
proof -
  have "try_block (always_failed 0) ''LlamaIndex''
      = Raise (Exception ''LlamaIndex task failed: No error details available'')"
    by (simp add: always_failed_def failed_reply_def try_block_def)
  moreover have "\<not> is_server_error (Exception ''LlamaIndex task failed: No error details available'')"
    by (simp add: is_server_error_def)
  ultimately have first: "wait_loop always_failed ''LlamaIndex'' 0 []
      = (Inl (Exception ''LlamaIndex task failed: No error details available''), [])"
    by (intro wait_loop_raise) (simp_all add: max_attempts_def)
  have "sleep_after failed_mentioning_500 ''LlamaIndex'' k = Some 5" for k
    by (simp add: sleep_after_def failed_mentioning_500_def failed_reply_def try_block_def
        is_server_error_def)
  then have "wait_loop failed_mentioning_500 ''LlamaIndex'' 0 []
      = wait_loop failed_mentioning_500 ''LlamaIndex'' max_attempts
          ([] @ map (\<lambda>k. 5) [0..<max_attempts])"
    by (intro wait_loop_run) auto
  with first show ?thesis
    by (simp add: wait_for_task_completion_def wait_loop_exhausted timeout_error_def
        map_replicate_const)
qed

section \<open>The four-step chain of \<^verbatim>\<open>orchestrate.py\<close>\<close>










section \<open>Fan-out and synthesis in \<^verbatim>\<open>orchestrate_parallel.py\<close>\<close>

lemma parallel_wait_completed_at_once:
  assumes "client 0 = completed_reply r"
  shows "parallel_wait_for_task_completion client sn = Some (Inr r)"
  unfolding parallel_wait_for_task_completion_def
  by (subst parallel_wait_loop.simps)
     (simp add: assms completed_reply_def first_artifact_text_def)

lemma parallel_wait_failed_at_once:
  assumes "client 0 = failed_reply info"
  shows "parallel_wait_for_task_completion client sn = Some (Inl (Exception (sn @ '' task failed'')))"
  unfolding parallel_wait_for_task_completion_def
  by (subst parallel_wait_loop.simps) (simp add: assms failed_reply_def)

lemma sends_after_fan_out:
  "sends_so_far ''Agno'' (fan_out_log p) = 1"
  "sends_so_far ''LlamaIndex'' (fan_out_log p) = 1"
  "sends_so_far ''Agno'' (fan_out_log p @ fan_out_log p) = 2"
  by (simp_all add: sends_so_far_def fan_out_log_def)

lemma fan_out_eq:
  "fan_out svc p llama_first log
     = (task_group (process_with_agno svc p (sends_so_far ''Agno'' log))
          (process_with_llama svc p (sends_so_far ''LlamaIndex'' log)) llama_first,
        log @ fan_out_log p)"
  by (simp add: fan_out_def fan_out_log_def)

lemma task_group_both_completed:
  "task_group (Some (Inr a)) (Some (Inr l)) llama_first
     = Some (Inr (if llama_first then [(''llama'', l), (''agno'', a)]
                  else [(''agno'', a), (''llama'', l)]))"
  by (simp add: task_group_def)

lemma extract_results_either_order:
  "extract_results (if llama_first then [(''llama'', l), (''agno'', a)]
                    else [(''agno'', a), (''llama'', l)]) (None, None) = (Some a, Some l)"
  by simp


text \<open>The run once the first task group has completed: all that follows depends on the
  second group only.\<close>

lemma workflow_after_first_group:
  assumes "process_with_agno svc p 0 = Some (Inr a1)"
    and "process_with_llama svc p 0 = Some (Inr l1)"
  shows "parallel_processing_workflow svc p first_order second_order =
    (case task_group (process_with_agno svc p 1) (process_with_llama svc p 1) second_order of
       None \<Rightarrow> (None, fan_out_log p @ fan_out_log p)
     | Some (Inl e) \<Rightarrow> (Some (Inl e), fan_out_log p @ fan_out_log p)
     | Some (Inr results) \<Rightarrow>
        (case extract_results results (None, None) of
           (agno_result, llama_result) \<Rightarrow>
            (case send_task (agno_client svc) 2 (synthesis_prompt p agno_result llama_result) of
               Inl e \<Rightarrow> Some (Inl e)
             | Inr tid \<Rightarrow>
                (case parallel_wait_for_task_completion (get_task (agno_client svc) tid) ''Agno'' of
                   None \<Rightarrow> None
                 | Some (Inl e) \<Rightarrow> Some (Inl e)
                 | Some (Inr final_result) \<Rightarrow> Some (Inr (final_result, agno_result, llama_result))),
             fan_out_log p @ fan_out_log p
               @ [(''Agno'', synthesis_prompt p agno_result llama_result)])))"
  using assms
  by (simp add: parallel_processing_workflow_def fan_out_eq task_group_both_completed
      sends_after_fan_out send_task_to_service_def sends_so_far_def [of _ "[]"]
      split: option.splits sum.splits prod.splits)

lemma workflow_both_groups_completed:
  assumes "process_with_agno svc p 0 = Some (Inr a1)"
    and "process_with_llama svc p 0 = Some (Inr l1)"
    and "process_with_agno svc p 1 = Some (Inr x)"
    and "process_with_llama svc p 1 = Some (Inr y)"
  shows "parallel_processing_workflow svc p first_order second_order =
    (case send_task (agno_client svc) 2 (synthesis_prompt p (Some x) (Some y)) of
       Inl e \<Rightarrow> Some (Inl e)
     | Inr tid \<Rightarrow>
        (case parallel_wait_for_task_completion (get_task (agno_client svc) tid) ''Agno'' of
           None \<Rightarrow> None
         | Some (Inl e) \<Rightarrow> Some (Inl e)
         | Some (Inr final_result) \<Rightarrow> Some (Inr (final_result, Some x, Some y))),
     fan_out_log p @ fan_out_log p @ [(''Agno'', synthesis_prompt p (Some x) (Some y))])"
  using assms(3,4)
  by (simp add: workflow_after_first_group [OF assms(1,2)] task_group_both_completed
      extract_results_either_order del: extract_results.simps)

lemma process_with_agno_example:
  assumes "n < length agno_replies"
  shows "agno_replies ! n = completed_reply r
           \<Longrightarrow> process_with_agno (example_services agno_replies llama_replies) p n = Some (Inr r)"
    and "agno_replies ! n = failed_reply info
           \<Longrightarrow> process_with_agno (example_services agno_replies llama_replies) p n
               = Some (Inl (Exception ''Agno task failed''))"
  using assms
  by (simp_all add: process_with_agno_def example_services_def example_client_def
      parallel_wait_completed_at_once parallel_wait_failed_at_once)

lemma process_with_llama_example:
  assumes "n < length llama_replies"
  shows "llama_replies ! n = completed_reply r
           \<Longrightarrow> process_with_llama (example_services agno_replies llama_replies) p n = Some (Inr r)"
  using assms
  by (simp add: process_with_llama_def example_services_def example_client_def
      parallel_wait_completed_at_once)

text \<open>
  C7. When the members of both task groups complete, the second group with \<open>x\<close> from
  Agno and \<open>y\<close> from LlamaIndex, the prompt of the synthesis step is the fixed template
  with \<open>x\<close> in its first slot and \<open>y\<close> in its second, whichever member of either group
  finished first; the whole run is the same for every completion order.
\<close>

theorem C7_synthesis_prompt_ignores_completion_order:
  assumes "process_with_agno svc p 0 = Some (Inr a1)"
    and "process_with_llama svc p 0 = Some (Inr l1)"
    and "process_with_agno svc p 1 = Some (Inr x)"
    and "process_with_llama svc p 1 = Some (Inr y)"
  shows "last (snd (parallel_processing_workflow svc p first_order second_order))
           = (''Agno'', synthesis_prefix p @ x @ synthesis_middle @ y @ synthesis_suffix)
       \<and> parallel_processing_workflow svc p first_order second_order
           = parallel_processing_workflow svc p first_order' second_order'"
  by (simp add: workflow_both_groups_completed [OF assms] synthesis_prompt_def)

theorem C7_scenario_E_witness:
  "last (snd (parallel_processing_workflow
          (example_services [completed_reply ''a1'', completed_reply ''x'', completed_reply ''z'']
             [completed_reply ''l1'', completed_reply ''y'']) ''q'' False True))
     = (''Agno'', synthesis_prefix ''q'' @ ''x'' @ synthesis_middle @ ''y'' @ synthesis_suffix)
   \<and> parallel_processing_workflow
        (example_services [completed_reply ''a1'', completed_reply ''x'', completed_reply ''z'']
           [completed_reply ''l1'', completed_reply ''y'']) ''q'' False True
     = parallel_processing_workflow
        (example_services [completed_reply ''a1'', completed_reply ''x'', completed_reply ''z'']
           [completed_reply ''l1'', completed_reply ''y'']) ''q'' True False"
proof -
  let ?svc = "example_services [completed_reply ''a1'', completed_reply ''x'', completed_reply ''z'']
      [completed_reply ''l1'', completed_reply ''y'']"
  have a0: "process_with_agno ?svc ''q'' 0 = Some (Inr ''a1'')"
    by (rule process_with_agno_example) simp_all
  have l0: "process_with_llama ?svc ''q'' 0 = Some (Inr ''l1'')"
    by (rule process_with_llama_example) simp_all
  have a1: "process_with_agno ?svc ''q'' 1 = Some (Inr ''x'')"
    by (rule process_with_agno_example) simp_all
  have l1: "process_with_llama ?svc ''q'' 1 = Some (Inr ''y'')"
    by (rule process_with_llama_example) simp_all
  show ?thesis
    by (rule C7_synthesis_prompt_ignores_completion_order [OF a0 l0 a1 l1])
qed




end
